theory Spec2Isabelle
  imports Main "HOL-Library.AList" "HOL-Library.Sublist"
begin

section \<open>JavaScript values\<close>

text \<open>
  A JavaScript string is kept as the list of the bytes of its UTF-8 rendering, so that
  the text the proxy reads from the backend, the text it writes and the literals of
  \<^verbatim>\<open>server.js\<close> are all of type \<^typ>\<open>string\<close>. Every separator and marker the program
  searches for is ASCII, and an ASCII byte never occurs inside a multi-byte character of
  UTF-8, so \<^verbatim>\<open>split\<close>, \<^verbatim>\<open>startsWith\<close>, \<^verbatim>\<open>includes\<close> and \<^verbatim>\<open>slice(6)\<close> act on
  the bytes as they act on the code units.

  The value \<^verbatim>\<open>JSON.parse\<close> returns is a tree. An object keeps its properties in
  enumeration order, as an association list. A number is kept as its decimal rendering
  (\<^verbatim>\<open>Number.prototype.toString\<close>): the program tests numbers for truthiness and splices
  them into text, and does nothing else with them; both zeros render as \<^verbatim>\<open>0\<close>.
\<close>

datatype json =
    JNull
  | JBool bool
  | JNum string
  | JStr string
  | JArr "json list"
  | JObj "(string \<times> json) list"

text \<open>The line separator \<^verbatim>\<open>'\n'\<close>.\<close>

definition NL :: char where
  "NL = CHR 0x0A"

text \<open>
  The platform functions the program calls and this development does not define:
  \<^verbatim>\<open>JSON.parse\<close> (\<open>None\<close> when it throws a SyntaxError), \<^verbatim>\<open>JSON.stringify\<close>,
  the numeric case of the operator \<^verbatim>\<open>+\<close>, \<^verbatim>\<open>String.prototype.toLowerCase\<close> and
  \<^verbatim>\<open>String.prototype.trim\<close>. Every theorem holds for all of them.
\<close>

record platform =
  JSON_parse :: "string \<Rightarrow> json option"
  JSON_stringify :: "json \<Rightarrow> string"
  num_plus :: "json \<Rightarrow> json \<Rightarrow> json"
  toLowerCase :: "string \<Rightarrow> string"
  trim :: "string \<Rightarrow> string"

text \<open>Truthiness (\<^verbatim>\<open>ToBoolean\<close>); \<open>None\<close> stands for \<^verbatim>\<open>undefined\<close>.\<close>

fun truthy :: "json \<Rightarrow> bool" where
  "truthy JNull = False"
| "truthy (JBool b) = b"
| "truthy (JNum n) = (n \<noteq> ''0'' \<and> n \<noteq> ''NaN'')"
| "truthy (JStr s) = (s \<noteq> [])"
| "truthy (JArr xs) = True"
| "truthy (JObj kvs) = True"

fun truthy_opt :: "json option \<Rightarrow> bool" where
  "truthy_opt None = False"
| "truthy_opt (Some v) = truthy v"

text \<open>
  \<^verbatim>\<open>ToString\<close> of a parsed value, \<open>None\<close> when it throws a TypeError. An array
  renders through \<^verbatim>\<open>join(',')\<close>, where \<^verbatim>\<open>null\<close> elements render empty. An object
  renders through \<^verbatim>\<open>Object.prototype.toString\<close>, unless it owns a property named
  \<^verbatim>\<open>toString\<close>: a parsed value is never callable, and the conversion throws.
\<close>

fun join :: "string \<Rightarrow> string list \<Rightarrow> string" where
  "join sep [] = []"
| "join sep [x] = x"
| "join sep (x # y # ys) = x @ sep @ join sep (y # ys)"

fun sequence :: "'a option list \<Rightarrow> 'a list option" where
  "sequence [] = Some []"
| "sequence (None # xs) = None"
| "sequence (Some x # xs) = (case sequence xs of None \<Rightarrow> None | Some ys \<Rightarrow> Some (x # ys))"

fun ToString :: "json \<Rightarrow> string option" where
  "ToString JNull = Some ''null''"
| "ToString (JBool b) = Some (if b then ''true'' else ''false'')"
| "ToString (JNum n) = Some n"
| "ToString (JStr s) = Some s"
| "ToString (JArr xs) =
     map_option (join '','')
       (sequence (map (\<lambda>x. if x = JNull then Some [] else ToString x) xs))"
| "ToString (JObj kvs) =
     (if ''toString'' \<in> fst ` set kvs then None else Some ''[object Object]'')"

text \<open>
  The operator \<^verbatim>\<open>+\<close>: when either operand is a string, an array or an object the
  result is the concatenation of the two renderings; otherwise it is the platform's
  numeric sum.
\<close>

fun stringy :: "json \<Rightarrow> bool" where
  "stringy (JStr s) = True"
| "stringy (JArr xs) = True"
| "stringy (JObj kvs) = True"
| "stringy v = False"

definition js_plus :: "platform \<Rightarrow> json \<Rightarrow> json \<Rightarrow> json option" where
  "js_plus P a b =
     (if stringy a \<or> stringy b then
        (case ToString a of
           None \<Rightarrow> None
         | Some x \<Rightarrow> (case ToString b of None \<Rightarrow> None | Some y \<Rightarrow> Some (JStr (x @ y))))
      else Some (num_plus P a b))"

text \<open>
  Property reads on a value that is neither \<^verbatim>\<open>null\<close> nor \<^verbatim>\<open>undefined\<close>. The
  names read here (\<^verbatim>\<open>choices\<close>, \<^verbatim>\<open>delta\<close>, \<^verbatim>\<open>reasoning_content\<close>, \<^verbatim>\<open>content\<close>)
  are on no prototype, so only an object can hold them. Index \<^verbatim>\<open>0\<close> reads the first
  element of an array, the property \<^verbatim>\<open>"0"\<close> of an object and the first unit of a
  string (a string again: nothing below reads more of it than that).
\<close>

fun get_prop :: "json \<Rightarrow> string \<Rightarrow> json option" where
  "get_prop (JObj kvs) k = map_of kvs k"
| "get_prop v k = None"

fun index0 :: "json \<Rightarrow> json option" where
  "index0 (JArr xs) = (case xs of [] \<Rightarrow> None | x # _ \<Rightarrow> Some x)"
| "index0 (JObj kvs) = map_of kvs ''0''"
| "index0 (JStr s) = (if s = [] then None else Some (JStr (take 1 s)))"
| "index0 v = None"

text \<open>
  Property writes. Assigning to a property of an object replaces the value in place or
  appends the property; on an array the new property is not an element, so
  \<^verbatim>\<open>JSON.stringify\<close> never shows it; on a primitive the assignment is dropped (the
  file is a sloppy-mode script). \<^verbatim>\<open>delete\<close> removes the property of an object.
\<close>

fun set_prop :: "string \<Rightarrow> json \<Rightarrow> json \<Rightarrow> json" where
  "set_prop k v (JObj kvs) = JObj (AList.update k v kvs)"
| "set_prop k v d = d"

fun delete_prop :: "string \<Rightarrow> json \<Rightarrow> json" where
  "delete_prop k (JObj kvs) = JObj (AList.delete k kvs)"
| "delete_prop k d = d"

text \<open>
  The parsed value is a tree, so mutating the object reached by
  \<^verbatim>\<open>data.choices[0].delta\<close> is replacing the subtree at that path.
\<close>

fun at_prop :: "string \<Rightarrow> (json \<Rightarrow> json) \<Rightarrow> json \<Rightarrow> json" where
  "at_prop k f (JObj kvs) = JObj (AList.map_entry k f kvs)"
| "at_prop k f v = v"

fun at_index0 :: "(json \<Rightarrow> json) \<Rightarrow> json \<Rightarrow> json" where
  "at_index0 f (JArr xs) = (case xs of [] \<Rightarrow> JArr [] | x # ys \<Rightarrow> JArr (f x # ys))"
| "at_index0 f (JObj kvs) = JObj (AList.map_entry ''0'' f kvs)"
| "at_index0 f v = v"

definition at_delta :: "(json \<Rightarrow> json) \<Rightarrow> json \<Rightarrow> json" where
  "at_delta f data = at_prop ''choices'' (at_index0 (at_prop ''delta'' f)) data"

text \<open>
  The optional chain \<^verbatim>\<open>data.choices?.[0]?.delta\<close> for \<open>data\<close> other than
  \<^verbatim>\<open>null\<close>: it is \<^verbatim>\<open>undefined\<close> as soon as a link is \<^verbatim>\<open>undefined\<close> or \<^verbatim>\<open>null\<close>.
\<close>

definition choice0_delta :: "json \<Rightarrow> json option" where
  "choice0_delta data =
     (case get_prop data ''choices'' of
        None \<Rightarrow> None
      | Some choices \<Rightarrow>
          if choices = JNull then None
          else (case index0 choices of
                  None \<Rightarrow> None
                | Some c \<Rightarrow> if c = JNull then None else get_prop c ''delta''))"

section \<open>The stream reshaper\<close>

subsection \<open>Decoding a chunk\<close>

text \<open>
  \<^verbatim>\<open>chunk.toString()\<close> decodes the bytes of one chunk as UTF-8, each chunk on its own.
  The decoder is that of the Encoding Standard: a well-formed sequence is kept, and every
  maximal ill-formed part, also a sequence the chunk ends within, becomes U+FFFD
  (\<^verbatim>\<open>EF BF BD\<close> in the rendering used here). The state is the number of bytes still
  needed, the bytes of the current sequence, and the bounds of the next byte.
\<close>

definition replacement :: string where
  "replacement = [CHR 0xEF, CHR 0xBF, CHR 0xBD]"

function utf8_decode :: "nat \<Rightarrow> string \<Rightarrow> nat \<Rightarrow> nat \<Rightarrow> string \<Rightarrow> string" where
  "utf8_decode needed seen lo hi [] = (if needed = 0 then [] else replacement)"
| "utf8_decode needed seen lo hi (b # bs) =
     (if needed = 0 then
        (if (of_char b :: nat) < 0x80 then b # utf8_decode 0 [] 0x80 0xBF bs
         else if 0xC2 \<le> (of_char b :: nat) \<and> (of_char b :: nat) \<le> 0xDF then
           utf8_decode 1 [b] 0x80 0xBF bs
         else if 0xE0 \<le> (of_char b :: nat) \<and> (of_char b :: nat) \<le> 0xEF then
           utf8_decode 2 [b] (if (of_char b :: nat) = 0xE0 then 0xA0 else 0x80)
             (if (of_char b :: nat) = 0xED then 0x9F else 0xBF) bs
         else if 0xF0 \<le> (of_char b :: nat) \<and> (of_char b :: nat) \<le> 0xF4 then
           utf8_decode 3 [b] (if (of_char b :: nat) = 0xF0 then 0x90 else 0x80)
             (if (of_char b :: nat) = 0xF4 then 0x8F else 0xBF) bs
         else replacement @ utf8_decode 0 [] 0x80 0xBF bs)
      else if lo \<le> (of_char b :: nat) \<and> (of_char b :: nat) \<le> hi then
        (if needed = 1 then seen @ [b] @ utf8_decode 0 [] 0x80 0xBF bs
         else utf8_decode (needed - 1) (seen @ [b]) 0x80 0xBF bs)
      else replacement @ utf8_decode 0 [] 0x80 0xBF (b # bs))"
  by pat_completeness auto
termination
  by (relation "measure (\<lambda>(needed, seen, lo, hi, bs). 2 * length bs + (if needed = 0 then 0 else 1))")
    auto

definition Buffer_toString :: "string \<Rightarrow> string" where
  "Buffer_toString chunk = utf8_decode 0 [] 0x80 0xBF chunk"

subsection \<open>String helpers\<close>

text \<open>
  \<^verbatim>\<open>hay.includes(needle)\<close>, \<^verbatim>\<open>s.split(sep)\<close> for a one-character separator (never an
  empty array: the empty string splits into one empty piece) and \<^verbatim>\<open>lines.pop() || ''\<close>.
  \<^verbatim>\<open>line.startsWith(p)\<close> is \<^term>\<open>prefix p line\<close> and \<^verbatim>\<open>line.slice(6)\<close> is
  \<^term>\<open>drop 6 line\<close>.
\<close>

fun js_includes :: "string \<Rightarrow> string \<Rightarrow> bool" where
  "js_includes needle [] = (needle = [])"
| "js_includes needle (c # cs) = (prefix needle (c # cs) \<or> js_includes needle cs)"

fun split_on :: "char \<Rightarrow> string \<Rightarrow> string list" where
  "split_on sep [] = [[]]"
| "split_on sep (c # cs) =
     (if c = sep then [] # split_on sep cs
      else (case split_on sep cs of [] \<Rightarrow> [[c]] | l # ls \<Rightarrow> (c # l) # ls))"

definition pop :: "string list \<Rightarrow> string list \<times> string" where
  "pop ls = (if ls = [] then ([], []) else (butlast ls, last ls))"

subsection \<open>The content-merge policy\<close>

text \<open>
  Lines 312 to 319 of \<^verbatim>\<open>server.js\<close>: the reasoning text of a delta, with the opening
  marker when no segment is open. The result is the value of \<^verbatim>\<open>combinedContent\<close>
  (\<open>None\<close> when the concatenation throws) and the flag \<^verbatim>\<open>reasoningStarted\<close>.
\<close>

definition merge_reasoning :: "platform \<Rightarrow> bool \<Rightarrow> json option \<Rightarrow> json option \<times> bool" where
  "merge_reasoning P started reasoning =
     (case reasoning of
        None \<Rightarrow> (Some (JStr []), started)
      | Some r \<Rightarrow>
          if truthy r \<and> \<not> started then
            (case js_plus P (JStr (''<think>'' @ [NL])) r of
               None \<Rightarrow> (None, started)
             | Some c \<Rightarrow> (Some c, True))
          else if truthy r then (Some r, started)
          else (Some (JStr []), started))"

text \<open>
  Lines 321 to 326: the content text of the delta, after the closing marker when a
  segment is open.
\<close>

definition merge_content ::
  "platform \<Rightarrow> bool \<Rightarrow> json \<Rightarrow> json option \<Rightarrow> json option \<times> bool" where
  "merge_content P started combined content =
     (case content of
        None \<Rightarrow> (Some combined, started)
      | Some c \<Rightarrow>
          if truthy c \<and> started then
            (case js_plus P (JStr (''</think>'' @ [NL, NL])) c of
               None \<Rightarrow> (None, started)
             | Some t \<Rightarrow>
                 (case js_plus P combined t of
                    None \<Rightarrow> (None, started)
                  | Some u \<Rightarrow> (Some u, False)))
          else if truthy c then
            (case js_plus P combined c of
               None \<Rightarrow> (None, started)
             | Some u \<Rightarrow> (Some u, started))
          else (Some combined, started))"

definition merge ::
  "platform \<Rightarrow> bool \<Rightarrow> json option \<Rightarrow> json option \<Rightarrow> json option \<times> bool" where
  "merge P started reasoning content =
     (case merge_reasoning P started reasoning of
        (None, s1) \<Rightarrow> (None, s1)
      | (Some c1, s1) \<Rightarrow> merge_content P s1 c1 content)"

text \<open>
  Lines 307 to 340: what the \<^verbatim>\<open>try\<close> block does to the parsed payload. The result
  is the payload to re-encode, or \<open>None\<close> when a TypeError was thrown (reading
  \<^verbatim>\<open>choices\<close> of \<^verbatim>\<open>null\<close>, or a concatenation), and the flag as the block leaves it.
  The first argument after the platform is \<^verbatim>\<open>SHOW_REASONING\<close>.
\<close>

definition reshape :: "platform \<Rightarrow> bool \<Rightarrow> bool \<Rightarrow> json \<Rightarrow> json option \<times> bool" where
  "reshape P show_reasoning started data =
     (if data = JNull then (None, started)
      else
        (case choice0_delta data of
           None \<Rightarrow> (Some data, started)
         | Some delta \<Rightarrow>
             if \<not> truthy delta then (Some data, started)
             else if show_reasoning then
               (case merge P started (get_prop delta ''reasoning_content'')
                       (get_prop delta ''content'') of
                  (None, s) \<Rightarrow> (None, s)
                | (Some combined, s) \<Rightarrow>
                    if truthy combined then
                      (Some (at_delta (\<lambda>d. delete_prop ''reasoning_content''
                                (set_prop ''content'' combined d)) data), s)
                    else (Some data, s))
             else
               (Some (at_delta (\<lambda>d. delete_prop ''reasoning_content''
                         (set_prop ''content''
                            (case get_prop delta ''content'' of
                               None \<Rightarrow> JStr []
                             | Some c \<Rightarrow> if truthy c then c else JStr []) d)) data),
                started)))"

subsection \<open>Lines and chunks\<close>

text \<open>
  Lines 299 to 345: one complete line. The result is the list of strings passed to
  \<^verbatim>\<open>res.write\<close> (none or one) and the flag.
\<close>

definition process_line :: "platform \<Rightarrow> bool \<Rightarrow> bool \<Rightarrow> string \<Rightarrow> string list \<times> bool" where
  "process_line P show_reasoning started line =
     (if prefix ''data: '' line then
        if js_includes ''[DONE]'' line then ([line @ [NL]], started)
        else
          (case JSON_parse P (drop 6 line) of
             None \<Rightarrow> ([line @ [NL]], started)
           | Some data \<Rightarrow>
               (case reshape P show_reasoning started data of
                  (None, s) \<Rightarrow> ([line @ [NL]], s)
                | (Some d, s) \<Rightarrow> ([''data: '' @ JSON_stringify P d @ [NL, NL]], s)))
      else ([], started))"

fun process_lines :: "platform \<Rightarrow> bool \<Rightarrow> bool \<Rightarrow> string list \<Rightarrow> string list \<times> bool" where
  "process_lines P show_reasoning started [] = ([], started)"
| "process_lines P show_reasoning started (l # ls) =
     (case process_line P show_reasoning started l of
        (out, s) \<Rightarrow>
          (case process_lines P show_reasoning s ls of
             (outs, s') \<Rightarrow> (out @ outs, s')))"

text \<open>
  Lines 290 to 347: the state of one response, and the handler of a \<^verbatim>\<open>data\<close> event:
  the chunk is decoded and appended to the buffer (\<open>on_data\<close>), the buffer is split,
  its last piece is kept and the pieces before it are processed (\<open>on_text\<close>).
\<close>

record stream_state =
  buffer :: string
  reasoningStarted :: bool

definition initial :: stream_state where
  "initial = \<lparr>buffer = [], reasoningStarted = False\<rparr>"

definition on_text ::
  "platform \<Rightarrow> bool \<Rightarrow> stream_state \<Rightarrow> string \<Rightarrow> string list \<times> stream_state" where
  "on_text P show_reasoning st text =
     (case pop (split_on NL (buffer st @ text)) of
        (lines, rest) \<Rightarrow>
          (case process_lines P show_reasoning (reasoningStarted st) lines of
             (out, s) \<Rightarrow> (out, \<lparr>buffer = rest, reasoningStarted = s\<rparr>)))"

definition on_data ::
  "platform \<Rightarrow> bool \<Rightarrow> stream_state \<Rightarrow> string \<Rightarrow> string list \<times> stream_state" where
  "on_data P show_reasoning st chunk = on_text P show_reasoning st (Buffer_toString chunk)"

text \<open>A response: the chunks in the order they arrive; \<^verbatim>\<open>end\<close> writes nothing.\<close>

fun on_chunks ::
  "platform \<Rightarrow> bool \<Rightarrow> stream_state \<Rightarrow> string list \<Rightarrow> string list \<times> stream_state" where
  "on_chunks P show_reasoning st [] = ([], st)"
| "on_chunks P show_reasoning st (c # cs) =
     (case on_data P show_reasoning st c of
        (out, st1) \<Rightarrow>
          (case on_chunks P show_reasoning st1 cs of
             (outs, st2) \<Rightarrow> (out @ outs, st2)))"

section \<open>The request mapper\<close>

text \<open>
  Lines 266 to 273. The fields of the request body are parsed values or \<^verbatim>\<open>undefined\<close>
  (\<open>None\<close>); \<^verbatim>\<open>a || b\<close> is \<open>a\<close> when \<open>a\<close> is truthy and \<open>b\<close> otherwise. The resolved
  model name and the messages (after injection) are arguments, and so is the constant
  \<^verbatim>\<open>ENABLE_THINKING_MODE\<close>.
\<close>

fun js_or :: "json option \<Rightarrow> json \<Rightarrow> json" where
  "js_or None b = b"
| "js_or (Some a) b = (if truthy a then a else b)"

record 'm nim_request =
  nim_model :: string
  nim_messages :: 'm
  nim_temperature :: json
  nim_max_tokens :: json
  nim_extra_body :: "json option"
  nim_stream :: json

definition nimRequest ::
  "bool \<Rightarrow> string \<Rightarrow> 'm \<Rightarrow> json option \<Rightarrow> json option \<Rightarrow> json option \<Rightarrow> 'm nim_request" where
  "nimRequest enable_thinking_mode nimModel messages temperature max_tokens stream =
     \<lparr>nim_model = nimModel,
      nim_messages = messages,
      nim_temperature = js_or temperature (JNum ''0.6''),
      nim_max_tokens = js_or max_tokens (JNum ''9024''),
      nim_extra_body =
        (if enable_thinking_mode
         then Some (JObj [(''chat_template_kwargs'', JObj [(''thinking'', JBool True)])])
         else None),
      nim_stream = js_or stream (JBool False)\<rparr>"

section \<open>The lore matcher\<close>

text \<open>
  The data of section 3 of the specification, as \<^verbatim>\<open>findRelevantLoreEntries\<close> reads it.
  The keys of an entry are \<open>None\<close> when \<^verbatim>\<open>entry.keys\<close> is missing or not an array;
  comment and order are optional. The entries of a source are in the order of
  \<^verbatim>\<open>Object.values\<close>.
\<close>

record message =
  role :: string
  msg_content :: string

record lore_entry =
  keys :: "string list option"
  content :: string
  comment :: "string option"
  order :: "int option"
  case_sensitive :: bool

record lorebook =
  title :: string
  author :: string
  entries :: "lore_entry list"

text \<open>An element of \<^verbatim>\<open>relevantEntries\<close> (lines 141 to 146).\<close>

record relevant =
  found_content :: string
  found_comment :: string
  found_order :: int
  found_lorebook :: string

text \<open>
  The two regular expressions, \<^verbatim>\<open>/<LOREBOOK:([^>]+)>/gi\<close> and
  \<^verbatim>\<open>/<DISABLE_LOREBOOK:([^>]+)>/gi\<close>, differ in their marker only. The flag \<^verbatim>\<open>i\<close>
  compares characters after upper-casing; for the ASCII markers that is the ASCII letters
  in either case. \<open>match_here\<close> is the expression anchored at the start of the text:
  the marker, then the longest run of characters other than \<^verbatim>\<open>>\<close>, which must not be
  empty and must be followed by \<^verbatim>\<open>>\<close>. \<open>match_all\<close> is \<^verbatim>\<open>text.match\<close> with the flag
  \<^verbatim>\<open>g\<close>: every match from left to right, the search going on after each match (a
  match is never empty, so that is \<open>length m - 1\<close> characters after its first).
\<close>

definition ascii_upper :: "char \<Rightarrow> char" where
  "ascii_upper c =
     (case map_of (zip ''abcdefghijklmnopqrstuvwxyz'' ''ABCDEFGHIJKLMNOPQRSTUVWXYZ'') c of
        None \<Rightarrow> c
      | Some u \<Rightarrow> u)"

definition prefix_ci :: "string \<Rightarrow> string \<Rightarrow> bool" where
  "prefix_ci marker s =
     (length marker \<le> length s \<and>
      map ascii_upper (take (length marker) s) = map ascii_upper marker)"

definition match_here :: "string \<Rightarrow> string \<Rightarrow> string option" where
  "match_here marker s =
     (if prefix_ci marker s then
        (case dropWhile (\<lambda>c. c \<noteq> CHR ''>'') (drop (length marker) s) of
           [] \<Rightarrow> None
         | _ # _ \<Rightarrow>
             if takeWhile (\<lambda>c. c \<noteq> CHR ''>'') (drop (length marker) s) = [] then None
             else Some (take (length marker
                   + length (takeWhile (\<lambda>c. c \<noteq> CHR ''>'') (drop (length marker) s)) + 1) s))
      else None)"

fun match_all :: "string \<Rightarrow> string \<Rightarrow> string list" where
  "match_all marker [] = []"
| "match_all marker (c # cs) =
     (case match_here marker (c # cs) of
        None \<Rightarrow> match_all marker cs
      | Some m \<Rightarrow> m # match_all marker (drop (length m - 1) cs))"

text \<open>
  \<^verbatim>\<open>match.replace(/<LOREBOOK:|>/gi, '')\<close>: every occurrence of the marker (in either
  case) or of \<^verbatim>\<open>>\<close> is removed, from left to right.
\<close>

fun remove_all :: "string \<Rightarrow> string \<Rightarrow> string" where
  "remove_all marker [] = []"
| "remove_all marker (c # cs) =
     (if prefix_ci marker (c # cs) then remove_all marker (drop (length marker - 1) cs)
      else if c = CHR ''>'' then remove_all marker cs
      else c # remove_all marker cs)"

text \<open>
  Lines 94 to 109: the titles named by the directives with the given marker, trimmed and
  lower-cased, in the order of the matches.
\<close>

definition directive_titles :: "platform \<Rightarrow> string \<Rightarrow> string \<Rightarrow> string list" where
  "directive_titles P marker conversationText =
     map (\<lambda>m. toLowerCase P (trim P (remove_all marker m))) (match_all marker conversationText)"

text \<open>Lines 132 to 138: \<^verbatim>\<open>entry.keys.some(...)\<close>.\<close>

definition hasMatch :: "platform \<Rightarrow> string \<Rightarrow> lore_entry \<Rightarrow> string list \<Rightarrow> bool" where
  "hasMatch P conversationText entry ks =
     list_ex (\<lambda>keyword.
        if case_sensitive entry then js_includes keyword conversationText
        else js_includes (toLowerCase P keyword) (toLowerCase P conversationText)) ks"

text \<open>Lines 128 to 148: what one entry of a source adds to \<^verbatim>\<open>relevantEntries\<close>.\<close>

definition entry_found :: "platform \<Rightarrow> string \<Rightarrow> lorebook \<Rightarrow> lore_entry \<Rightarrow> relevant list" where
  "entry_found P conversationText book entry =
     (case keys entry of
        None \<Rightarrow> []
      | Some ks \<Rightarrow>
          if hasMatch P conversationText entry ks \<and> content entry \<noteq> [] then
            [\<lparr>found_content = content entry,
              found_comment = (case comment entry of None \<Rightarrow> [] | Some c \<Rightarrow> c),
              found_order = (case order entry of None \<Rightarrow> 0 | Some n \<Rightarrow> n),
              found_lorebook = title book\<rparr>]
          else [])"

text \<open>Lines 115 to 149: what one source adds.\<close>

definition book_found ::
  "platform \<Rightarrow> string \<Rightarrow> string list \<Rightarrow> string list \<Rightarrow> lorebook \<Rightarrow> relevant list" where
  "book_found P conversationText activeLorebooks disabledLorebooks book =
     (if toLowerCase P (title book) \<in> set disabledLorebooks then []
      else if activeLorebooks \<noteq> [] \<and> toLowerCase P (title book) \<notin> set activeLorebooks then []
      else concat (map (entry_found P conversationText book) (entries book)))"

text \<open>
  Lines 85 to 149: \<^verbatim>\<open>relevantEntries\<close> before it is sorted, in the order the entries
  are found. The conversation text is the contents of the messages joined by a space.
\<close>

definition conversation :: "message list \<Rightarrow> string" where
  "conversation messages = join '' '' (map msg_content messages)"

definition discovered :: "platform \<Rightarrow> lorebook list \<Rightarrow> message list \<Rightarrow> relevant list" where
  "discovered P lorebook_data messages =
     concat (map (book_found P (conversation messages)
                    (directive_titles P ''<LOREBOOK:'' (conversation messages))
                    (directive_titles P ''<DISABLE_LOREBOOK:'' (conversation messages)))
               lorebook_data)"

text \<open>
  Lines 80 to 155. The first two arguments after the platform are \<^verbatim>\<open>ENABLE_LOREBOOK\<close>
  and \<^verbatim>\<open>LOREBOOK_DATA\<close>. \<^verbatim>\<open>Array.prototype.sort\<close> is stable, and the comparator
  \<^verbatim>\<open>a.order - b.order\<close> orders by the integer \<open>order\<close>, so the result is the stable
  sort by that key.
\<close>

definition findRelevantLoreEntries ::
  "platform \<Rightarrow> bool \<Rightarrow> lorebook list \<Rightarrow> message list \<Rightarrow> relevant list" where
  "findRelevantLoreEntries P enable_lorebook lorebook_data messages =
     (if \<not> enable_lorebook \<or> lorebook_data = [] then []
      else sort_key found_order (discovered P lorebook_data messages))"

section \<open>Notions used to state the properties\<close>

text \<open>
  A complete line that is a candidate event, is not taken for the terminator and whose
  payload \<^verbatim>\<open>JSON.parse\<close> decodes to \<open>data\<close>.
\<close>

definition decodes_to :: "platform \<Rightarrow> string \<Rightarrow> json \<Rightarrow> bool" where
  "decodes_to P line data =
     (prefix ''data: '' line \<and> \<not> js_includes ''[DONE]'' line \<and>
      JSON_parse P (drop 6 line) = Some data)"

text \<open>The payload \<^verbatim>\<open>{"choices":[{"delta":d}]}\<close>.\<close>

definition delta_payload :: "(string \<times> json) list \<Rightarrow> json" where
  "delta_payload d = JObj [(''choices'', JArr [JObj [(''delta'', JObj d)]])]"

text \<open>
  The text a channel of a delta carries: none when the field is absent or \<^verbatim>\<open>null\<close>,
  the string when it is one; any other value is not text.
\<close>

fun text_field :: "json option \<Rightarrow> string option" where
  "text_field None = Some []"
| "text_field (Some JNull) = Some []"
| "text_field (Some (JStr s)) = Some s"
| "text_field (Some v) = None"

text \<open>
  The merge policy in the words of the specification (section 4.4, item 4, display ON),
  for reasoning text \<open>r\<close> and content text \<open>c\<close> (empty when none arrived): reasoning
  text opens a segment unless one is open, content text closes an open segment. The
  result is the merged text and the flag \<open>reasoningOpen\<close>.
\<close>

definition spec_reasoning :: "bool \<Rightarrow> string \<Rightarrow> string \<times> bool" where
  "spec_reasoning is_open r =
     (if r = [] then ([], is_open)
      else if is_open then (r, True)
      else (''<think>'' @ [NL] @ r, True))"

definition spec_merge :: "bool \<Rightarrow> string \<Rightarrow> string \<Rightarrow> string \<times> bool" where
  "spec_merge is_open r c =
     (case spec_reasoning is_open r of
        (t, is_open1) \<Rightarrow>
          if c = [] then (t, is_open1)
          else if is_open1 then (t @ ''</think>'' @ [NL, NL] @ c, False)
          else (t @ c, is_open1))"

section \<open>A platform for the examples\<close>

text \<open>
  The examples below run the definitions on concrete streams. Their platform gives
  \<^verbatim>\<open>JSON.parse\<close> and \<^verbatim>\<open>JSON.stringify\<close> as tables that agree with the real functions
  on every payload the examples reach, and \<^verbatim>\<open>toLowerCase\<close> and \<^verbatim>\<open>trim\<close> on ASCII
  text. In the tables \<open>BS\<close> is the backslash of an escape \<^verbatim>\<open>JSON.stringify\<close> writes.
\<close>

definition BS :: char where
  "BS = CHR 0x5C"

definition parse_table :: "(string \<times> json) list" where
  \<open>parse_table =
    [(''{"choices":[{"delta":{"reasoning_content":"a"}}]}'',
        delta_payload [(''reasoning_content'', JStr ''a'')]),
     (''{"choices":[{"delta":{"content":"b"}}]}'',
        delta_payload [(''content'', JStr ''b'')]),
     (''{"choices":[{"delta":{"reasoning_content":"c"}}]}'',
        delta_payload [(''reasoning_content'', JStr ''c'')]),
     (''{"choices":[{"delta":{"content":"d"}}]}'',
        delta_payload [(''content'', JStr ''d'')]),
     (''{"choices":[{"delta":{"reasoning_content":""}}]}'',
        delta_payload [(''reasoning_content'', JStr [])]),
     (''{"choices":[{"delta":{"content":"'' @ [CHR 0xC3, CHR 0xA9] @ ''"}}]}'',
        delta_payload [(''content'', JStr [CHR 0xC3, CHR 0xA9])]),
     (''{"choices":[{"delta":{"content":"'' @ replacement @ replacement @ ''"}}]}'',
        delta_payload [(''content'', JStr (replacement @ replacement))])]\<close>

definition stringify_table :: "(json \<times> string) list" where
  \<open>stringify_table =
    [(delta_payload [(''content'', JStr [])],
        ''{"choices":[{"delta":{"content":""}}]}''),
     (delta_payload [(''content'', JStr ''b'')],
        ''{"choices":[{"delta":{"content":"b"}}]}''),
     (delta_payload [(''content'', JStr ''d'')],
        ''{"choices":[{"delta":{"content":"d"}}]}''),
     (delta_payload [(''content'', JStr (''<think>'' @ [NL] @ ''a''))],
        ''{"choices":[{"delta":{"content":"<think>'' @ [BS] @ ''na"}}]}''),
     (delta_payload [(''content'', JStr (''</think>'' @ [NL, NL] @ ''b''))],
        ''{"choices":[{"delta":{"content":"</think>'' @ [BS] @ ''n'' @ [BS] @ ''nb"}}]}''),
     (delta_payload [(''content'', JStr (''<think>'' @ [NL] @ ''c''))],
        ''{"choices":[{"delta":{"content":"<think>'' @ [BS] @ ''nc"}}]}''),
     (delta_payload [(''content'', JStr (''</think>'' @ [NL, NL] @ ''d''))],
        ''{"choices":[{"delta":{"content":"</think>'' @ [BS] @ ''n'' @ [BS] @ ''nd"}}]}''),
     (delta_payload [(''reasoning_content'', JStr [])],
        ''{"choices":[{"delta":{"reasoning_content":""}}]}''),
     (delta_payload [(''content'', JStr [CHR 0xC3, CHR 0xA9])],
        ''{"choices":[{"delta":{"content":"'' @ [CHR 0xC3, CHR 0xA9] @ ''"}}]}''),
     (delta_payload [(''content'', JStr (replacement @ replacement))],
        ''{"choices":[{"delta":{"content":"'' @ replacement @ replacement @ ''"}}]}'')]\<close>

definition ascii_lower :: "char \<Rightarrow> char" where
  "ascii_lower c =
     (case map_of (zip ''ABCDEFGHIJKLMNOPQRSTUVWXYZ'' ''abcdefghijklmnopqrstuvwxyz'') c of
        None \<Rightarrow> c
      | Some l \<Rightarrow> l)"

definition ascii_space :: "char \<Rightarrow> bool" where
  "ascii_space c = (c \<in> set [CHR 0x09, CHR 0x0A, CHR 0x0B, CHR 0x0C, CHR 0x0D, CHR 0x20])"

definition ascii_trim :: "string \<Rightarrow> string" where
  "ascii_trim s = rev (dropWhile ascii_space (rev (dropWhile ascii_space s)))"

definition example_platform :: platform where
  "example_platform =
     \<lparr>JSON_parse = map_of parse_table,
      JSON_stringify = (\<lambda>v. case map_of stringify_table v of None \<Rightarrow> [] | Some s \<Rightarrow> s),
      num_plus = (\<lambda>a b. JNum ''NaN''),
      toLowerCase = map ascii_lower,
      trim = ascii_trim\<rparr>"

text \<open>The lines of the examples.\<close>

definition line_reasoning_a :: string where
  \<open>line_reasoning_a = ''data: {"choices":[{"delta":{"reasoning_content":"a"}}]}''\<close>

definition line_content_b :: string where
  \<open>line_content_b = ''data: {"choices":[{"delta":{"content":"b"}}]}''\<close>

definition line_reasoning_c :: string where
  \<open>line_reasoning_c = ''data: {"choices":[{"delta":{"reasoning_content":"c"}}]}''\<close>

definition line_content_d :: string where
  \<open>line_content_d = ''data: {"choices":[{"delta":{"content":"d"}}]}''\<close>

definition line_reasoning_empty :: string where
  \<open>line_reasoning_empty = ''data: {"choices":[{"delta":{"reasoning_content":""}}]}''\<close>

definition line_done_text :: string where
  \<open>line_done_text = ''data: {"choices":[{"delta":{"content":"[DONE]"}}]}''\<close>


text \<open>What the display-OFF reshaper writes for them.\<close>

definition off_outputs :: "string list" where
  \<open>off_outputs =
    [''data: {"choices":[{"delta":{"content":""}}]}'' @ [NL, NL],
     ''data: {"choices":[{"delta":{"content":"b"}}]}'' @ [NL, NL],
     ''data: {"choices":[{"delta":{"content":""}}]}'' @ [NL, NL],
     ''data: {"choices":[{"delta":{"content":"d"}}]}'' @ [NL, NL]]\<close>

text \<open>
  A delta whose content is the two-byte character U+00E9, in one chunk and cut between
  the two bytes of the character, and what is written in either case.
\<close>

definition chunk_whole :: string where
  \<open>chunk_whole =
     ''data: {"choices":[{"delta":{"content":"'' @ [CHR 0xC3, CHR 0xA9] @ ''"}}]}'' @ [NL, NL]\<close>

definition chunk_head :: string where
  \<open>chunk_head = ''data: {"choices":[{"delta":{"content":"'' @ [CHR 0xC3]\<close>

definition chunk_tail :: string where
  \<open>chunk_tail = [CHR 0xA9] @ ''"}}]}'' @ [NL, NL]\<close>

definition event_whole :: string where
  \<open>event_whole =
     ''data: {"choices":[{"delta":{"content":"'' @ [CHR 0xC3, CHR 0xA9] @ ''"}}]}'' @ [NL, NL]\<close>

definition event_cut :: string where
  \<open>event_cut =
     ''data: {"choices":[{"delta":{"content":"'' @ replacement @ replacement @ ''"}}]}''
       @ [NL, NL]\<close>

text \<open>A line whose payload is not JSON.\<close>

definition line_malformed :: string where
  \<open>line_malformed = ''data: {"choices":[{"delta":''\<close>

text \<open>Two lore sources and two conversations.\<close>

definition dragon_entry :: lore_entry where
  "dragon_entry =
     \<lparr>keys = Some [''Dragon''], content = ''Dragons breathe fire.'', comment = None,
      order = Some 5, case_sensitive = False\<rparr>"

definition elf_entry :: lore_entry where
  "elf_entry =
     \<lparr>keys = Some [''elf''], content = ''Elves live long.'', comment = None,
      order = None, case_sensitive = True\<rparr>"

definition unwritten_entry :: lore_entry where
  "unwritten_entry =
     \<lparr>keys = Some [''dragon''], content = [], comment = Some ''to be written'',
      order = Some 1, case_sensitive = False\<rparr>"

definition bestiary :: lorebook where
  "bestiary =
     \<lparr>title = ''Bestiary'', author = ''Unknown'', entries = [dragon_entry, elf_entry]\<rparr>"

definition outline :: lorebook where
  "outline = \<lparr>title = ''Notes'', author = ''Unknown'', entries = [unwritten_entry]\<rparr>"

definition talk :: "message list" where
  "talk = [\<lparr>role = ''user'', msg_content = ''A dragon and an elf''\<rparr>]"

definition talk_disabling :: "message list" where
  "talk_disabling =
     [\<lparr>role = ''system'', msg_content = ''<DISABLE_LOREBOOK: bestiary >''\<rparr>,
      \<lparr>role = ''user'', msg_content = ''A dragon and an elf''\<rparr>]"

text \<open>The first source again, its title stored with a space on either side.\<close>

definition padded_bestiary :: lorebook where
  "padded_bestiary =
     \<lparr>title = '' Bestiary '', author = ''Unknown'', entries = [dragon_entry, elf_entry]\<rparr>"

section \<open>Properties of the stream reshaper\<close>

lemma includes_sublist: "js_includes needle hay = sublist needle hay"
  by (induction hay) (auto simp: sublist_Cons_right)

lemma map_of_map_entry_same:
  "map_of (AList.map_entry k f kvs) k = map_option f (map_of kvs k)"
  by (induction kvs) auto

lemma choice0_delta_at_delta:
  assumes "choice0_delta data = Some d"
  shows "choice0_delta (at_delta f data) = Some (f d)"
proof -
  from assms obtain kvs where data: "data = JObj kvs"
    by (cases data) (auto simp: choice0_delta_def)
  from assms data obtain ch where ch: "map_of kvs ''choices'' = Some ch" "ch \<noteq> JNull"
    by (auto simp: choice0_delta_def split: option.splits if_splits)
  from assms data ch obtain c where c: "index0 ch = Some c" "c \<noteq> JNull" "get_prop c ''delta'' = Some d"
    by (auto simp: choice0_delta_def split: option.splits if_splits)
  from c(3) obtain ckvs where ckvs: "c = JObj ckvs" "map_of ckvs ''delta'' = Some d"
    by (cases c) auto
  let ?h = "at_prop ''delta'' f"
  have hc: "?h c = JObj (AList.map_entry ''delta'' f ckvs)"
    by (simp add: ckvs)
  have idx: "index0 (at_index0 ?h ch) = Some (?h c)" "at_index0 ?h ch \<noteq> JNull"
    using c(1) ch(2) ckvs(1)
    by (cases ch; auto simp: map_of_map_entry_same split: list.splits if_splits)+
  show ?thesis
    using ch idx hc ckvs
    by (simp add: data at_delta_def choice0_delta_def map_of_map_entry_same)
qed

lemma delta_not_null: "choice0_delta data = Some d \<Longrightarrow> data \<noteq> JNull"
  by (auto simp: choice0_delta_def)

lemma reshape_off:
  assumes "choice0_delta data = Some (JObj d)"
  shows "reshape P False started data =
     (Some (at_delta (\<lambda>x. delete_prop ''reasoning_content''
        (set_prop ''content''
           (case map_of d ''content'' of None \<Rightarrow> JStr [] | Some c \<Rightarrow> if truthy c then c else JStr [])
           x)) data), started)"
  using assms delta_not_null [OF assms] by (simp add: reshape_def)

lemma reshape_on:
  assumes "choice0_delta data = Some (JObj d)"
  shows "reshape P True started data =
     (case merge P started (map_of d ''reasoning_content'') (map_of d ''content'') of
        (None, s) \<Rightarrow> (None, s)
      | (Some combined, s) \<Rightarrow>
          if truthy combined then
            (Some (at_delta (\<lambda>x. delete_prop ''reasoning_content''
                      (set_prop ''content'' combined x)) data), s)
          else (Some data, s))"
  using assms delta_not_null [OF assms] by (simp add: reshape_def)

lemma delta_rewritten:
  assumes "choice0_delta data = Some (JObj d)"
  shows "\<exists>d'. choice0_delta (at_delta (\<lambda>x. delete_prop ''reasoning_content''
            (set_prop ''content'' v x)) data) = Some (JObj d') \<and>
          map_of d' ''reasoning_content'' = None \<and>
          map_of d' ''content'' = Some v \<and>
          (\<forall>k. k \<noteq> ''content'' \<and> k \<noteq> ''reasoning_content'' \<longrightarrow> map_of d' k = map_of d k)"
proof (intro exI conjI)
  show "choice0_delta (at_delta (\<lambda>x. delete_prop ''reasoning_content''
            (set_prop ''content'' v x)) data) =
        Some (JObj (AList.delete ''reasoning_content'' (AList.update ''content'' v d)))"
    using choice0_delta_at_delta [OF assms] by simp
qed (simp_all add: delete_conv update_conv)

text \<open>On text the merge of the code is the merge of the specification.\<close>

lemma js_plus_text: "js_plus P (JStr a) (JStr b) = Some (JStr (a @ b))"
  by (simp add: js_plus_def)

lemma merge_text:
  assumes "text_field r = Some rt" and "text_field c = Some ct"
  shows "merge P started r c =
           (Some (JStr (fst (spec_merge started rt ct))), snd (spec_merge started rt ct))"
proof -
  have r: "r = None \<or> r = Some JNull \<or> r = Some (JStr rt)"
    using assms(1) by (cases r rule: text_field.cases) auto
  have c: "c = None \<or> c = Some JNull \<or> c = Some (JStr ct)"
    using assms(2) by (cases c rule: text_field.cases) auto
  have r0: "r = None \<or> r = Some JNull \<Longrightarrow> rt = []"
    using assms(1) by auto
  have c0: "c = None \<or> c = Some JNull \<Longrightarrow> ct = []"
    using assms(2) by auto
  from r c r0 c0 show ?thesis
    by (auto simp: merge_def merge_reasoning_def merge_content_def spec_merge_def
        spec_reasoning_def js_plus_text)
qed

text \<open>The flag after a merge that does not throw, for any values of the two fields.\<close>

lemma merge_reasoning_flag:
  "merge_reasoning P started r = (Some c1, s1) \<Longrightarrow>
     s1 = (started \<or> truthy_opt r) \<and> (truthy_opt r \<longrightarrow> truthy c1) \<and> (\<not> truthy_opt r \<longrightarrow> c1 = JStr [])"
  by (cases r) (auto simp: merge_reasoning_def js_plus_def split: if_splits option.splits)

lemma merge_content_flag:
  "merge_content P s1 c1 c = (Some c2, s2) \<Longrightarrow>
     s2 = (s1 \<and> \<not> truthy_opt c) \<and> (truthy c1 \<longrightarrow> s1 \<longrightarrow> truthy c2) \<and> (\<not> truthy_opt c \<longrightarrow> c2 = c1)"
  by (cases c) (auto simp: merge_content_def js_plus_def split: if_splits option.splits)

lemma merge_flag:
  assumes "merge P started r c = (Some m, s)"
  shows "s = ((started \<or> truthy_opt r) \<and> \<not> truthy_opt c)"
    and "truthy_opt r \<Longrightarrow> truthy m"
proof -
  from assms obtain c1 s1 where 1: "merge_reasoning P started r = (Some c1, s1)"
    and 2: "merge_content P s1 c1 c = (Some m, s)"
    by (auto simp: merge_def split: prod.splits option.splits)
  from merge_reasoning_flag [OF 1] merge_content_flag [OF 2]
  show "s = ((started \<or> truthy_opt r) \<and> \<not> truthy_opt c)" by auto
  from merge_reasoning_flag [OF 1] merge_content_flag [OF 2]
  show "truthy_opt r \<Longrightarrow> truthy m" by auto
qed

text \<open>
  One operand of every \<^verbatim>\<open>+\<close> of the reshaper is a string, so the numeric sum of the
  platform is never reached.
\<close>

lemma js_plus_text_left: "js_plus P (JStr a) v = map_option (\<lambda>t. JStr (a @ t)) (ToString v)"
  by (simp add: js_plus_def split: option.splits)

lemma js_plus_text_right: "js_plus P v (JStr b) = map_option (\<lambda>t. JStr (t @ b)) (ToString v)"
  by (simp add: js_plus_def split: option.splits)

lemma merge_no_arithmetic: "merge (P\<lparr>num_plus := f\<rparr>) started r c = merge P started r c"
proof (cases "truthy_opt r")
  case True
  then obtain v where "r = Some v" "truthy v"
    by (cases r) auto
  then show ?thesis
    by (cases c)
      (auto simp: merge_def merge_reasoning_def merge_content_def js_plus_text_left
        js_plus_text_right split: option.splits)
next
  case False
  then have "merge_reasoning (P\<lparr>num_plus := f\<rparr>) started r = (Some (JStr []), started)"
    and "merge_reasoning P started r = (Some (JStr []), started)"
    by (cases r; simp add: merge_reasoning_def)+
  then show ?thesis
    by (cases c)
      (auto simp: merge_def merge_content_def js_plus_text_left js_plus_text_right
        split: option.splits)
qed

lemma reshape_no_arithmetic: "reshape (P\<lparr>num_plus := f\<rparr>) sr started data = reshape P sr started data"
  unfolding reshape_def merge_no_arithmetic ..




lemmas example_defs =
  example_platform_def parse_table_def stringify_table_def delta_payload_def
  line_reasoning_a_def line_content_b_def line_reasoning_c_def line_content_d_def
  line_reasoning_empty_def line_done_text_def decodes_to_def choice0_delta_def

subsection \<open>Framing\<close>

lemma split_on_nonempty: "split_on sep s \<noteq> []"
  by (induction s) (auto split: list.splits)

lemma split_on_no_sep: "sep \<notin> set s \<Longrightarrow> split_on sep s = [s]"
  by (induction s) auto

lemma last_split_on_no_sep: "sep \<notin> set (last (split_on sep s))"
  by (induction s) (auto split: list.splits)

text \<open>
  Splitting a text that arrives in two parts: the complete pieces of the first part,
  then the pieces of what the first part left over followed by the second part.
\<close>

lemma split_on_append:
  "split_on sep (a @ b) =
     butlast (split_on sep a) @ split_on sep (last (split_on sep a) @ b)"
proof (induction a)
  case Nil
  then show ?case by simp
next
  case (Cons c a)
  show ?case
  proof (cases "c = sep")
    case True
    with Cons split_on_nonempty [of sep a] show ?thesis by simp
  next
    case False
    obtain l ls where a: "split_on sep a = l # ls"
      using split_on_nonempty [of sep a] by (cases "split_on sep a") auto
    show ?thesis
    proof (cases ls)
      case Nil
      with a False Cons show ?thesis by simp
    next
      case (Cons x xs)
      with a False Cons.IH split_on_nonempty [of sep "last (x # xs) @ b"] show ?thesis
        by (simp split: list.splits)
    qed
  qed
qed

lemma process_lines_append:
  "process_lines P show_reasoning started (xs @ ys) =
     (case process_lines P show_reasoning started xs of
        (out, s) \<Rightarrow>
          (case process_lines P show_reasoning s ys of
             (outs, s') \<Rightarrow> (out @ outs, s')))"
  by (induction xs arbitrary: started) (auto split: prod.splits)

lemma on_text_buffer: "on_text P sr st text = (out, st') \<Longrightarrow> NL \<notin> set (buffer st')"
  using last_split_on_no_sep [of NL "buffer st @ text"] split_on_nonempty [of NL "buffer st @ text"]
  by (auto simp: on_text_def pop_def split: prod.splits)

lemma on_text_empty: "NL \<notin> set (buffer st) \<Longrightarrow> on_text P sr st [] = ([], st)"
  by (simp add: on_text_def pop_def split_on_no_sep)

text \<open>
  Text that arrives in two pieces is handled as the same text in one piece: the part
  after the last separator waits in the buffer, and every complete line is processed
  once, in order.
\<close>

lemma on_text_append:
  "on_text P sr st (a @ b) =
     (case on_text P sr st a of
        (out, st1) \<Rightarrow> (case on_text P sr st1 b of (outs, st2) \<Rightarrow> (out @ outs, st2)))"
proof -
  let ?A = "split_on NL (buffer st @ a)"
  let ?B = "split_on NL (last ?A @ b)"
  obtain o1 s1 where p1: "process_lines P sr (reasoningStarted st) (butlast ?A) = (o1, s1)"
    by (cases "process_lines P sr (reasoningStarted st) (butlast ?A)")
  obtain o2 s2 where p2: "process_lines P sr s1 (butlast ?B) = (o2, s2)"
    by (cases "process_lines P sr s1 (butlast ?B)")
  have t1: "on_text P sr st a = (o1, \<lparr>buffer = last ?A, reasoningStarted = s1\<rparr>)"
    by (simp add: on_text_def pop_def split_on_nonempty p1)
  have t2: "on_text P sr \<lparr>buffer = last ?A, reasoningStarted = s1\<rparr> b =
      (o2, \<lparr>buffer = last ?B, reasoningStarted = s2\<rparr>)"
    by (simp add: on_text_def pop_def split_on_nonempty p2)
  have sp: "split_on NL (buffer st @ a @ b) = butlast ?A @ ?B"
    using split_on_append [of NL "buffer st @ a" b] by simp
  have "on_text P sr st (a @ b) = (o1 @ o2, \<lparr>buffer = last ?B, reasoningStarted = s2\<rparr>)"
    by (simp add: on_text_def pop_def sp split_on_nonempty butlast_append
        process_lines_append p1 p2)
  then show ?thesis
    by (simp add: t1 t2)
qed

lemma on_chunks_on_text:
  "NL \<notin> set (buffer st) \<Longrightarrow>
   on_chunks P sr st chunks = on_text P sr st (concat (map Buffer_toString chunks))"
proof (induction chunks arbitrary: st)
  case Nil
  then show ?case by (simp add: on_text_empty)
next
  case (Cons c cs)
  obtain out st1 where 1: "on_text P sr st (Buffer_toString c) = (out, st1)"
    by (cases "on_text P sr st (Buffer_toString c)")
  from on_text_buffer [OF 1] have "NL \<notin> set (buffer st1)" .
  from Cons.IH [OF this] 1 show ?case
    by (simp add: on_data_def on_text_append)
qed

text \<open>
  So what is written, and the state left, depend on the chunks only through the
  concatenation of their decoded texts; and a stream of ASCII bytes may be cut anywhere.
\<close>

lemma split_invariance_text:
  assumes "NL \<notin> set (buffer st)"
    and "concat (map Buffer_toString cs) = concat (map Buffer_toString cs')"
  shows "on_chunks P sr st cs = on_chunks P sr st cs'"
  using assms by (simp add: on_chunks_on_text)

lemma utf8_decode_ascii:
  "list_all (\<lambda>b. (of_char b :: nat) < 0x80) chunk \<Longrightarrow> utf8_decode 0 seen lo hi chunk = chunk"
  by (induction chunk arbitrary: seen lo hi) auto

lemma split_invariance_ascii:
  assumes "list_all (\<lambda>b. (of_char b :: nat) < 0x80) (concat cs)" and "concat cs' = concat cs"
  shows "on_chunks P sr initial cs' = on_chunks P sr initial cs"
proof -
  have "\<And>xs. list_all (\<lambda>b. (of_char b :: nat) < 0x80) (concat xs) \<Longrightarrow> map Buffer_toString xs = xs"
    by (simp add: list_all_iff Buffer_toString_def utf8_decode_ascii map_idI)
  with assms show ?thesis
    by (simp add: on_chunks_on_text initial_def)
qed

text \<open>The two bytes of U+00E9 decode to themselves together, and to U+FFFD each alone.\<close>

lemma decode_cut_character:
  "Buffer_toString [CHR 0xC3, CHR 0xA9] = [CHR 0xC3, CHR 0xA9] \<and>
   Buffer_toString [CHR 0xC3] = replacement \<and>
   Buffer_toString [CHR 0xA9] = replacement"
  by (simp add: Buffer_toString_def)

text \<open>
  C1. The claim fails where a chunk boundary falls inside a multi-byte character: each
  chunk is decoded on its own (\<^verbatim>\<open>chunk.toString()\<close>), so both halves of the character
  become U+FFFD before they reach the buffer. The stream below carries one delta whose
  content is U+00E9; in one chunk the event is written with that content, cut between
  the two bytes of the character it is written with two replacement characters instead.
\<close>

theorem split_inside_character:
  "chunk_head @ chunk_tail = chunk_whole \<and>
   on_chunks example_platform False initial [chunk_whole] = ([event_whole], initial) \<and>
   on_chunks example_platform False initial [chunk_head, chunk_tail] = ([event_cut], initial) \<and>
   event_cut \<noteq> event_whole"
  by (simp add: chunk_head_def chunk_tail_def chunk_whole_def event_whole_def event_cut_def
      on_data_def on_text_def pop_def initial_def Buffer_toString_def NL_def replacement_def
      process_line_def example_platform_def parse_table_def stringify_table_def
      delta_payload_def reshape_def choice0_delta_def at_delta_def)

subsection \<open>Lines that are forwarded as they are\<close>

lemma sentinel_is_last:
  assumes "prefix ''data: '' line" and "sublist ''[DONE]'' line"
  shows "process_lines P sr st (ls @ [line]) =
     (fst (process_lines P sr st ls) @ [line @ [NL]], snd (process_lines P sr st ls))"
  using assms
  by (simp add: process_lines_append process_line_def includes_sublist split: prod.splits)

lemma malformed_line_forwarded:
  assumes "prefix ''data: '' line" and "\<not> sublist ''[DONE]'' line"
    and "JSON_parse P (drop 6 line) = None"
  shows "process_line P sr st line = ([line @ [NL]], st)"
  using assms by (simp add: process_line_def includes_sublist)

text \<open>
  C4. The terminator line is written as it is, whatever \<^verbatim>\<open>JSON.parse\<close> is, and after
  everything written for the lines before it (\<open>sentinel_is_last\<close>); but it is followed
  by one line separator, not by the blank line that ends every re-encoded event: the
  blank line of the backend is a line without the prefix, and is dropped.
\<close>

theorem sentinel_one_separator:
  "on_chunks P show_reasoning initial [''data: [DONE]'' @ [NL, NL]] =
     ([''data: [DONE]'' @ [NL]], initial)"
  by (simp add: on_data_def on_text_def pop_def initial_def Buffer_toString_def NL_def
      process_line_def)

text \<open>
  C6. A line whose payload does not decode is written byte for byte, the flag is
  unchanged and the lines after it are processed (\<open>malformed_line_forwarded\<close>); but
  the event loses its blank line, as the terminator does. In the stream below the
  malformed event and the well-formed event after it are written with one separator
  between them, in both display modes.
\<close>

theorem malformed_event_unterminated:
  "JSON_parse example_platform (drop 6 line_malformed) = None \<and>
   on_chunks example_platform False initial
       [line_malformed @ [NL, NL] @ line_content_b @ [NL, NL]] =
     ([line_malformed @ [NL], line_content_b @ [NL, NL]], initial) \<and>
   on_chunks example_platform True initial
       [line_malformed @ [NL, NL] @ line_content_b @ [NL, NL]] =
     ([line_malformed @ [NL], line_content_b @ [NL, NL]], initial)"
  by (simp add: line_malformed_def line_content_b_def
      on_data_def on_text_def pop_def initial_def Buffer_toString_def NL_def
      process_line_def example_platform_def parse_table_def stringify_table_def
      delta_payload_def reshape_def choice0_delta_def at_delta_def
      merge_def merge_reasoning_def merge_content_def js_plus_def)

text \<open>
  C10. Terminator detection is by substring: a complete line with the event prefix that
  contains \<^verbatim>\<open>[DONE]\<close> anywhere is written as it is, followed by one line separator,
  whatever \<^verbatim>\<open>JSON.parse\<close> would make of it, in both display modes and with the flag
  unchanged. A delta whose text merely contains the sequence bypasses the merge policy.
\<close>

theorem done_by_substring:
  "prefix ''data: '' line \<Longrightarrow> sublist ''[DONE]'' line \<Longrightarrow>
   process_line P show_reasoning started line = ([line @ [NL]], started)"
  by (simp add: process_line_def includes_sublist)

theorem done_by_substring_witness:
  "prefix ''data: '' line_done_text \<and> sublist ''[DONE]'' line_done_text \<and>
   process_line example_platform True False line_done_text =
     ([line_done_text @ [NL]], False)"
proof -
  have p: "prefix ''data: '' line_done_text"
    by (simp add: line_done_text_def)
  have s: "sublist ''[DONE]'' line_done_text"
    unfolding includes_sublist [symmetric] by (simp add: line_done_text_def)
  from p s done_by_substring [OF p s, of example_platform True False]
  show ?thesis by simp
qed

text \<open>
  The four deltas of the specification's example with display OFF: the contents written
  are empty, \<^verbatim>\<open>b\<close>, empty, \<^verbatim>\<open>d\<close>, and the flag never moves.
\<close>

lemma display_off_sequence:
  "process_lines example_platform False False
     [line_reasoning_a, line_content_b, line_reasoning_c, line_content_d] = (off_outputs, False)"
  by (simp add: example_defs off_outputs_def process_line_def reshape_def at_delta_def)

text \<open>
  C3. Display OFF: for a candidate line whose payload decodes and carries a delta object,
  the reshaper writes one event, the payload re-encoded with the delta rewritten. In the
  rewritten delta the reasoning field is absent, the content field is present and holds
  the incoming content when that is truthy and the empty string otherwise (so incoming
  content text is kept as it is, and absent or \<^verbatim>\<open>null\<close> content becomes \<^verbatim>\<open>""\<close>), and
  every other field is unchanged. The flag is unchanged.
\<close>

theorem display_off_delta:
  assumes "decodes_to P line data" and "choice0_delta data = Some (JObj d)"
  shows "\<exists>data' d'.
     process_line P False started line =
       ([''data: '' @ JSON_stringify P data' @ [NL, NL]], started) \<and>
     reshape P False started data = (Some data', started) \<and>
     choice0_delta data' = Some (JObj d') \<and>
     map_of d' ''reasoning_content'' = None \<and>
     map_of d' ''content'' =
       Some (case map_of d ''content'' of
               None \<Rightarrow> JStr [] | Some c \<Rightarrow> if truthy c then c else JStr []) \<and>
     (\<forall>s. map_of d ''content'' = Some (JStr s) \<longrightarrow> map_of d' ''content'' = Some (JStr s)) \<and>
     (\<forall>k. k \<noteq> ''content'' \<and> k \<noteq> ''reasoning_content'' \<longrightarrow> map_of d' k = map_of d k)"
proof -
  define c where
    "c = (case map_of d ''content'' of None \<Rightarrow> JStr [] | Some c \<Rightarrow> if truthy c then c else JStr [])"
  define data' where
    "data' = at_delta (\<lambda>x. delete_prop ''reasoning_content'' (set_prop ''content'' c x)) data"
  have r: "reshape P False started data = (Some data', started)"
    using reshape_off [OF assms(2)] by (simp add: data'_def c_def)
  have w: "process_line P False started line =
       ([''data: '' @ JSON_stringify P data' @ [NL, NL]], started)"
    using assms(1) r by (simp add: process_line_def decodes_to_def)
  from delta_rewritten [OF assms(2), of c] obtain d' where d':
    "choice0_delta data' = Some (JObj d')" "map_of d' ''reasoning_content'' = None"
    "map_of d' ''content'' = Some c"
    "\<forall>k. k \<noteq> ''content'' \<and> k \<noteq> ''reasoning_content'' \<longrightarrow> map_of d' k = map_of d k"
    unfolding data'_def by blast
  have t: "\<forall>s. map_of d ''content'' = Some (JStr s) \<longrightarrow> c = JStr s"
    by (auto simp: c_def)
  have c: "map_of d' ''content'' =
       Some (case map_of d ''content'' of
               None \<Rightarrow> JStr [] | Some c \<Rightarrow> if truthy c then c else JStr [])"
    using d'(3) by (simp add: c_def)
  have t': "\<forall>s. map_of d ''content'' = Some (JStr s) \<longrightarrow> map_of d' ''content'' = Some (JStr s)"
    using t d'(3) by simp
  from w r d'(1) d'(2) c t' d'(4) show ?thesis
    by (intro exI conjI)
qed

theorem display_off_delta_witness:
  "decodes_to example_platform line_reasoning_a (delta_payload [(''reasoning_content'', JStr ''a'')]) \<and>
   choice0_delta (delta_payload [(''reasoning_content'', JStr ''a'')]) =
     Some (JObj [(''reasoning_content'', JStr ''a'')]) \<and>
   (\<exists>data' d'.
     process_line example_platform False False line_reasoning_a =
       ([''data: '' @ JSON_stringify example_platform data' @ [NL, NL]], False) \<and>
     reshape example_platform False False (delta_payload [(''reasoning_content'', JStr ''a'')]) =
       (Some data', False) \<and>
     choice0_delta data' = Some (JObj d') \<and>
     map_of d' ''reasoning_content'' = None \<and>
     map_of d' ''content'' = Some (JStr []))"
proof -
  have h1: "decodes_to example_platform line_reasoning_a
      (delta_payload [(''reasoning_content'', JStr ''a'')])"
    by (simp add: example_defs)
  have h2: "choice0_delta (delta_payload [(''reasoning_content'', JStr ''a'')]) =
     Some (JObj [(''reasoning_content'', JStr ''a'')])"
    by (simp add: example_defs)
  from display_off_delta [OF h1 h2, of False] obtain data' d' where
    "process_line example_platform False False line_reasoning_a =
       ([''data: '' @ JSON_stringify example_platform data' @ [NL, NL]], False)"
    "reshape example_platform False False (delta_payload [(''reasoning_content'', JStr ''a'')]) =
       (Some data', False)"
    "choice0_delta data' = Some (JObj d')"
    "map_of d' ''reasoning_content'' = None"
    "map_of d' ''content'' = Some (JStr [])"
    by auto
  with h1 h2 show ?thesis
    by (intro exI conjI)
qed



text \<open>
  C5 as the claim states it fails with display ON: the delta \<^verbatim>\<open>{"reasoning_content":""}\<close>
  merges to the empty text, the guard \<^verbatim>\<open>if (combinedContent)\<close> skips both the
  assignment and the \<^verbatim>\<open>delete\<close>, and the payload is written with its reasoning field.
\<close>

theorem reasoning_field_counterexample:
  "decodes_to example_platform line_reasoning_empty
     (delta_payload [(''reasoning_content'', JStr [])]) \<and>
   process_line example_platform True False line_reasoning_empty =
     ([''data: '' @ JSON_stringify example_platform
          (delta_payload [(''reasoning_content'', JStr [])]) @ [NL, NL]], False) \<and>
   process_line example_platform True False line_reasoning_empty =
     ([line_reasoning_empty @ [NL, NL]], False) \<and>
   choice0_delta (delta_payload [(''reasoning_content'', JStr [])]) =
     Some (JObj [(''reasoning_content'', JStr [])]) \<and>
   get_prop (JObj [(''reasoning_content'', JStr [])]) ''reasoning_content'' = Some (JStr [])"
  by (simp add: example_defs process_line_def reshape_def merge_def merge_reasoning_def
      merge_content_def)

text \<open>
  C5, as the code has it. For a payload with a delta object: with display OFF the
  re-encoded delta never has the reasoning field. With display ON, a payload that is
  re-encoded either has the merged value, which is truthy, as its content field and no
  reasoning field, or is the incoming payload unchanged, and then the incoming reasoning
  field (if any) is falsy: no reasoning text is left in. For text channels the merged
  value is the merged text of the specification: when that is empty the payload is
  unchanged, otherwise it replaces the content field and the reasoning field is absent.
\<close>

theorem reasoning_field_policy:
  assumes "choice0_delta data = Some (JObj d)"
  shows "(\<exists>data' d'.
            reshape P False started data = (Some data', started) \<and>
            choice0_delta data' = Some (JObj d') \<and>
            map_of d' ''reasoning_content'' = None) \<and>
         (\<forall>data' started'.
            reshape P True started data = (Some data', started') \<longrightarrow>
              (\<exists>d' m. truthy m \<and>
                  choice0_delta data' = Some (JObj d') \<and>
                  map_of d' ''reasoning_content'' = None \<and>
                  map_of d' ''content'' = Some m) \<or>
              (data' = data \<and> \<not> truthy_opt (map_of d ''reasoning_content''))) \<and>
         (\<forall>r c. text_field (map_of d ''reasoning_content'') = Some r \<and>
                text_field (map_of d ''content'') = Some c \<longrightarrow>
            (\<exists>data'.
               reshape P True started data = (Some data', snd (spec_merge started r c)) \<and>
               (if fst (spec_merge started r c) = [] then data' = data
                else (\<exists>d'. choice0_delta data' = Some (JObj d') \<and>
                        map_of d' ''reasoning_content'' = None \<and>
                        map_of d' ''content'' = Some (JStr (fst (spec_merge started r c)))))))"
proof (intro conjI)
  from reshape_off [OF assms, of P started] delta_rewritten [OF assms]
  show "\<exists>data' d'.
            reshape P False started data = (Some data', started) \<and>
            choice0_delta data' = Some (JObj d') \<and>
            map_of d' ''reasoning_content'' = None"
    by blast
next
  show "\<forall>data' started'.
            reshape P True started data = (Some data', started') \<longrightarrow>
              (\<exists>d' m. truthy m \<and>
                  choice0_delta data' = Some (JObj d') \<and>
                  map_of d' ''reasoning_content'' = None \<and>
                  map_of d' ''content'' = Some m) \<or>
              (data' = data \<and> \<not> truthy_opt (map_of d ''reasoning_content''))"
  proof (intro allI impI)
    fix data' started'
    assume r: "reshape P True started data = (Some data', started')"
    then obtain m where m: "merge P started (map_of d ''reasoning_content'') (map_of d ''content'')
        = (Some m, started')"
      unfolding reshape_on [OF assms] by (auto split: prod.splits option.splits if_splits)
    show "(\<exists>d' m. truthy m \<and>
                  choice0_delta data' = Some (JObj d') \<and>
                  map_of d' ''reasoning_content'' = None \<and>
                  map_of d' ''content'' = Some m) \<or>
              (data' = data \<and> \<not> truthy_opt (map_of d ''reasoning_content''))"
    proof (cases "truthy m")
      case True
      with r m have "data' = at_delta (\<lambda>x. delete_prop ''reasoning_content''
                      (set_prop ''content'' m x)) data"
        unfolding reshape_on [OF assms] by simp
      with delta_rewritten [OF assms, of m] True show ?thesis
        by blast
    next
      case False
      with r m have "data' = data"
        unfolding reshape_on [OF assms] by simp
      moreover from False merge_flag(2) [OF m]
      have "\<not> truthy_opt (map_of d ''reasoning_content'')"
        by blast
      ultimately show ?thesis by simp
    qed
  qed
next
  show "\<forall>r c. text_field (map_of d ''reasoning_content'') = Some r \<and>
                text_field (map_of d ''content'') = Some c \<longrightarrow>
            (\<exists>data'.
               reshape P True started data = (Some data', snd (spec_merge started r c)) \<and>
               (if fst (spec_merge started r c) = [] then data' = data
                else (\<exists>d'. choice0_delta data' = Some (JObj d') \<and>
                        map_of d' ''reasoning_content'' = None \<and>
                        map_of d' ''content'' = Some (JStr (fst (spec_merge started r c))))))"
  proof (intro allI impI, elim conjE)
    fix r c
    assume "text_field (map_of d ''reasoning_content'') = Some r"
      and "text_field (map_of d ''content'') = Some c"
    from merge_text [OF this, of P started]
    have m: "merge P started (map_of d ''reasoning_content'') (map_of d ''content'') =
      (Some (JStr (fst (spec_merge started r c))), snd (spec_merge started r c))" .
    show "\<exists>data'.
               reshape P True started data = (Some data', snd (spec_merge started r c)) \<and>
               (if fst (spec_merge started r c) = [] then data' = data
                else (\<exists>d'. choice0_delta data' = Some (JObj d') \<and>
                        map_of d' ''reasoning_content'' = None \<and>
                        map_of d' ''content'' = Some (JStr (fst (spec_merge started r c)))))"
    proof (cases "fst (spec_merge started r c) = []")
      case True
      then show ?thesis
        unfolding reshape_on [OF assms] m by simp
    next
      case False
      with delta_rewritten [OF assms, of "JStr (fst (spec_merge started r c))"]
      show ?thesis
        unfolding reshape_on [OF assms] m by auto
    qed
  qed
qed

theorem reasoning_field_policy_witness:
  "choice0_delta (delta_payload [(''reasoning_content'', JStr ''a'')]) =
     Some (JObj [(''reasoning_content'', JStr ''a'')]) \<and>
   text_field (map_of [(''reasoning_content'', JStr ''a'')] ''reasoning_content'') = Some ''a'' \<and>
   text_field (map_of [(''reasoning_content'', JStr ''a'')] ''content'') = Some [] \<and>
   spec_merge False ''a'' [] = (''<think>'' @ [NL] @ ''a'', True) \<and>
   (\<exists>data' d'.
      reshape example_platform True False (delta_payload [(''reasoning_content'', JStr ''a'')]) =
        (Some data', True) \<and>
      choice0_delta data' = Some (JObj d') \<and>
      map_of d' ''reasoning_content'' = None \<and>
      map_of d' ''content'' = Some (JStr (''<think>'' @ [NL] @ ''a'')))"
proof -
  have h: "choice0_delta (delta_payload [(''reasoning_content'', JStr ''a'')]) =
     Some (JObj [(''reasoning_content'', JStr ''a'')])"
    by (simp add: example_defs)
  have r: "text_field (map_of [(''reasoning_content'', JStr ''a'')] ''reasoning_content'') =
      Some ''a''"
    by simp
  have c: "text_field (map_of [(''reasoning_content'', JStr ''a'')] ''content'') = Some []"
    by simp
  have m: "spec_merge False ''a'' [] = (''<think>'' @ [NL] @ ''a'', True)"
    by (simp add: spec_merge_def spec_reasoning_def)
  from reasoning_field_policy [OF h, of example_platform False] r c
  have "\<exists>data'.
      reshape example_platform True False (delta_payload [(''reasoning_content'', JStr ''a'')]) =
        (Some data', snd (spec_merge False ''a'' [])) \<and>
      (if fst (spec_merge False ''a'' []) = [] then
         data' = delta_payload [(''reasoning_content'', JStr ''a'')]
       else (\<exists>d'. choice0_delta data' = Some (JObj d') \<and>
               map_of d' ''reasoning_content'' = None \<and>
               map_of d' ''content'' = Some (JStr (fst (spec_merge False ''a'' [])))))"
    by blast
  then have "\<exists>data' d'.
      reshape example_platform True False (delta_payload [(''reasoning_content'', JStr ''a'')]) =
        (Some data', True) \<and>
      choice0_delta data' = Some (JObj d') \<and>
      map_of d' ''reasoning_content'' = None \<and>
      map_of d' ''content'' = Some (JStr (''<think>'' @ [NL] @ ''a''))"
    unfolding m by auto
  with h r c m show ?thesis
    by (intro conjI)
qed

section \<open>Properties of the request mapper\<close>

text \<open>
  What \<^verbatim>\<open>||\<close> gives: the default for an absent field, the supplied value when it is
  truthy.
\<close>

lemma mapper_defaults:
  "nim_temperature (nimRequest th m msgs None mt st) = JNum ''0.6''"
  "nim_max_tokens (nimRequest th m msgs t None st) = JNum ''9024''"
  "truthy v \<Longrightarrow> nim_temperature (nimRequest th m msgs (Some v) mt st) = v"
  "truthy v \<Longrightarrow> nim_max_tokens (nimRequest th m msgs t (Some v) st) = v"
  by (simp_all add: nimRequest_def)

text \<open>
  C7. The defaults are applied with \<^verbatim>\<open>||\<close>, which tests truthiness and not presence:
  a client that sends \<^verbatim>\<open>temperature: 0\<close> gets the default 0.6, and one that sends
  \<^verbatim>\<open>max_tokens: 0\<close> gets 9024.
\<close>

theorem zero_is_replaced:
  "nim_temperature (nimRequest th m msgs (Some (JNum ''0'')) mt st) = JNum ''0.6'' \<and>
   nim_max_tokens (nimRequest th m msgs t (Some (JNum ''0'')) st) = JNum ''9024''"
  by (simp add: nimRequest_def)


section \<open>Properties of the lore matcher\<close>

lemma book_found_origin:
  "r \<in> set (book_found P text active disabled book) \<Longrightarrow>
     found_lorebook r = title book \<and> toLowerCase P (title book) \<notin> set disabled"
  by (auto simp: book_found_def entry_found_def split: if_splits option.splits)

lemma discovered_origin:
  assumes "r \<in> set (discovered P lorebook_data messages)"
  shows "\<exists>book \<in> set lorebook_data. found_lorebook r = title book \<and>
     toLowerCase P (title book) \<notin>
       set (directive_titles P ''<DISABLE_LOREBOOK:'' (conversation messages))"
  using assms book_found_origin unfolding discovered_def by fastforce

lemma set_findRelevantLoreEntries:
  "set (findRelevantLoreEntries P enable lorebook_data messages) \<subseteq>
     set (discovered P lorebook_data messages)"
  by (simp add: findRelevantLoreEntries_def)

text \<open>
  C9 as the claim states it fails: the title of a directive is trimmed before it is
  compared (lines 97 and 106), the title of a source is only lower-cased (line 116). A
  source whose stored title has a space on either side is named by the directive once
  both titles are trimmed and lower-cased, and yet it is not skipped: both its entries
  are returned.
\<close>

theorem deactivation_precedence_counterexample:
  "toLowerCase example_platform (trim example_platform (title padded_bestiary)) \<in>
     set (directive_titles example_platform ''<DISABLE_LOREBOOK:'' (conversation talk_disabling)) \<and>
   toLowerCase example_platform (title padded_bestiary) \<notin>
     set (directive_titles example_platform ''<DISABLE_LOREBOOK:'' (conversation talk_disabling)) \<and>
   map found_lorebook
       (findRelevantLoreEntries example_platform True [padded_bestiary] talk_disabling) =
     ['' Bestiary '', '' Bestiary ''] \<and>
   map found_content
       (findRelevantLoreEntries example_platform True [padded_bestiary] talk_disabling) =
     [''Elves live long.'', ''Dragons breathe fire.'']"
  by code_simp

text \<open>
  C9, as the code has it. Deactivation takes precedence: when the title of a source,
  lower-cased as it is stored, is the title of a deactivation directive of the
  conversation, trimmed and lower-cased, no entry of the result comes from that source,
  whatever the activation directives, the switch \<^verbatim>\<open>ENABLE_LOREBOOK\<close> and the other
  sources are.
\<close>

theorem deactivation_precedence:
  assumes "toLowerCase P (title book) \<in>
     set (directive_titles P ''<DISABLE_LOREBOOK:'' (conversation messages))"
  shows "\<forall>r \<in> set (findRelevantLoreEntries P enable_lorebook lorebook_data messages).
           found_lorebook r \<noteq> title book"
proof
  fix r
  assume "r \<in> set (findRelevantLoreEntries P enable_lorebook lorebook_data messages)"
  with set_findRelevantLoreEntries have "r \<in> set (discovered P lorebook_data messages)"
    by blast
  from discovered_origin [OF this] assms show "found_lorebook r \<noteq> title book"
    by auto
qed

theorem deactivation_precedence_witness:
  "toLowerCase example_platform (title bestiary) \<in>
     set (directive_titles example_platform ''<DISABLE_LOREBOOK:'' (conversation talk_disabling)) \<and>
   list_all (\<lambda>r. found_lorebook r \<noteq> title bestiary)
     (findRelevantLoreEntries example_platform True [bestiary, outline] talk_disabling) \<and>
   map found_lorebook (findRelevantLoreEntries example_platform True [bestiary, outline] talk) =
     [''Bestiary'', ''Bestiary'']"
proof -
  have h: "toLowerCase example_platform (title bestiary) \<in>
     set (directive_titles example_platform ''<DISABLE_LOREBOOK:'' (conversation talk_disabling))"
    by code_simp
  have e: "map found_lorebook (findRelevantLoreEntries example_platform True [bestiary, outline] talk) =
     [''Bestiary'', ''Bestiary'']"
    by code_simp
  from deactivation_precedence [OF h, of True "[bestiary, outline]"] h e show ?thesis
    by (simp add: list_all_iff)
qed

lemma entry_found_in_book:
  assumes "toLowerCase P (title book) \<notin> set disabled"
    and "entry \<in> set (entries book)" and "keys entry = Some ks"
    and "hasMatch P text entry ks" and "content entry \<noteq> []"
  shows "\<exists>r \<in> set (book_found P text [] disabled book).
     found_lorebook r = title book \<and> found_content r = content entry"
  using assms by (auto simp: book_found_def entry_found_def intro!: bexI [of _ entry])

text \<open>
  C8 as the claim states it fails twice: a source named in a deactivation directive is
  left out also when there is no activation directive, and an entry whose content is
  empty is never returned, although its key matches.
\<close>

theorem every_source_counterexample:
  "match_all ''<LOREBOOK:'' (conversation talk_disabling) = [] \<and>
   keys dragon_entry = Some [''Dragon''] \<and>
   hasMatch example_platform (conversation talk_disabling) dragon_entry [''Dragon''] \<and>
   findRelevantLoreEntries example_platform True [bestiary] talk_disabling = [] \<and>
   match_all ''<LOREBOOK:'' (conversation talk) = [] \<and>
   match_all ''<DISABLE_LOREBOOK:'' (conversation talk) = [] \<and>
   keys unwritten_entry = Some [''dragon''] \<and>
   hasMatch example_platform (conversation talk) unwritten_entry [''dragon''] \<and>
   findRelevantLoreEntries example_platform True [outline] talk = []"
  by code_simp

text \<open>
  C8, as the code has it. When the lorebook is enabled and the conversation has no
  activation directive, every loaded source that no deactivation directive names and
  that has an entry with a matching key and a content that is not empty has that entry
  in the result. The result is sorted by ascending order, and entries of equal order
  stand in the order in which they were found.
\<close>

theorem every_source_contributes:
  assumes "enable_lorebook"
    and "match_all ''<LOREBOOK:'' (conversation messages) = []"
    and "book \<in> set lorebook_data"
    and "toLowerCase P (title book) \<notin>
      set (directive_titles P ''<DISABLE_LOREBOOK:'' (conversation messages))"
    and "entry \<in> set (entries book)" and "keys entry = Some ks"
    and "hasMatch P (conversation messages) entry ks" and "content entry \<noteq> []"
  shows "(\<exists>r \<in> set (findRelevantLoreEntries P enable_lorebook lorebook_data messages).
            found_lorebook r = title book \<and> found_content r = content entry) \<and>
         sorted (map found_order (findRelevantLoreEntries P enable_lorebook lorebook_data messages)) \<and>
         (\<forall>k. filter (\<lambda>r. found_order r = k)
                 (findRelevantLoreEntries P enable_lorebook lorebook_data messages) =
               filter (\<lambda>r. found_order r = k) (discovered P lorebook_data messages))"
proof -
  from assms(3) have ne: "lorebook_data \<noteq> []" by auto
  with assms(1) have f: "findRelevantLoreEntries P enable_lorebook lorebook_data messages =
      sort_key found_order (discovered P lorebook_data messages)"
    by (simp add: findRelevantLoreEntries_def)
  from assms(2) have a: "directive_titles P ''<LOREBOOK:'' (conversation messages) = []"
    by (simp add: directive_titles_def)
  from entry_found_in_book [OF assms(4-8)] obtain r where
    "r \<in> set (book_found P (conversation messages) []
        (directive_titles P ''<DISABLE_LOREBOOK:'' (conversation messages)) book)"
    "found_lorebook r = title book" "found_content r = content entry"
    by blast
  with assms(3) a have "\<exists>r \<in> set (discovered P lorebook_data messages).
      found_lorebook r = title book \<and> found_content r = content entry"
    unfolding discovered_def by auto
  then show ?thesis
    unfolding f by (simp add: sort_key_stable)
qed

theorem every_source_contributes_witness:
  "match_all ''<LOREBOOK:'' (conversation talk) = [] \<and>
   bestiary \<in> set [bestiary, outline] \<and>
   toLowerCase example_platform (title bestiary) \<notin>
      set (directive_titles example_platform ''<DISABLE_LOREBOOK:'' (conversation talk)) \<and>
   dragon_entry \<in> set (entries bestiary) \<and>
   keys dragon_entry = Some [''Dragon''] \<and>
   hasMatch example_platform (conversation talk) dragon_entry [''Dragon''] \<and>
   content dragon_entry \<noteq> [] \<and>
   (\<exists>r \<in> set (findRelevantLoreEntries example_platform True [bestiary, outline] talk).
      found_lorebook r = title bestiary \<and> found_content r = content dragon_entry) \<and>
   sorted (map found_order (findRelevantLoreEntries example_platform True [bestiary, outline] talk)) \<and>
   map found_content (discovered example_platform [bestiary, outline] talk) =
     [''Dragons breathe fire.'', ''Elves live long.''] \<and>
   map found_content (findRelevantLoreEntries example_platform True [bestiary, outline] talk) =
     [''Elves live long.'', ''Dragons breathe fire.'']"
proof -
  have h2: "match_all ''<LOREBOOK:'' (conversation talk) = []"
    by code_simp
  have h3: "bestiary \<in> set [bestiary, outline]"
    by simp
  have h4: "toLowerCase example_platform (title bestiary) \<notin>
      set (directive_titles example_platform ''<DISABLE_LOREBOOK:'' (conversation talk))"
    by code_simp
  have h5: "dragon_entry \<in> set (entries bestiary)"
    by (simp add: bestiary_def)
  have h6: "keys dragon_entry = Some [''Dragon'']"
    by (simp add: dragon_entry_def)
  have h7: "hasMatch example_platform (conversation talk) dragon_entry [''Dragon'']"
    by code_simp
  have h8: "content dragon_entry \<noteq> []"
    by (simp add: dragon_entry_def)
  have e1: "map found_content (discovered example_platform [bestiary, outline] talk) =
     [''Dragons breathe fire.'', ''Elves live long.'']"
    by code_simp
  have e2: "map found_content
       (findRelevantLoreEntries example_platform True [bestiary, outline] talk) =
     [''Elves live long.'', ''Dragons breathe fire.'']"
    by code_simp
  from every_source_contributes [OF TrueI h2 h3 h4 h5 h6 h7 h8]
  have "(\<exists>r \<in> set (findRelevantLoreEntries example_platform True [bestiary, outline] talk).
      found_lorebook r = title bestiary \<and> found_content r = content dragon_entry) \<and>
    sorted (map found_order
      (findRelevantLoreEntries example_platform True [bestiary, outline] talk))"
    by blast
  with h2 h3 h4 h5 h6 h7 h8 e1 e2 show ?thesis
    by (intro conjI) blast+
qed

end
